theory Spec2Isabelle
  imports Complex_Main "HOL-Library.Char_ord" "HOL-Library.List_Lexorder" "HOL-Library.Multiset"
begin

section \<open>Common Python notions\<close>

text \<open>
  Decimal rendering of integers, as \<^verbatim>\<open>str(int)\<close> and the \<^verbatim>\<open>{...}\<close> fields of
  f-strings produce it.
\<close>

definition digit_char :: "nat \<Rightarrow> char" where
  "digit_char d = ''0123456789'' ! d"

fun str_nat :: "nat \<Rightarrow> string" where
  "str_nat n = (if n < 10 then [digit_char n] else str_nat (n div 10) @ [digit_char (n mod 10)])"

declare str_nat.simps [simp del]

definition str_int :: "int \<Rightarrow> string" where
  "str_int i = (if i < 0 then CHR ''-'' # str_nat (nat (- i)) else str_nat (nat i))"

text \<open>\<^verbatim>\<open>' '.join(cmd)\<close>\<close>

fun join_space :: "string list \<Rightarrow> string" where
  "join_space [] = []"
| "join_space [x] = x"
| "join_space (x # y # ys) = x @ '' '' @ join_space (y # ys)"

text \<open>
  \<^verbatim>\<open>if s: print(f"{label}{s}", file=sys.stderr)\<close> for an optional string: nothing is
  printed for \<^verbatim>\<open>None\<close> and for the empty string.
\<close>

fun print_if_truthy :: "string \<Rightarrow> string option \<Rightarrow> string list" where
  "print_if_truthy label None = []"
| "print_if_truthy label (Some s) = (if s \<noteq> [] then [label @ s] else [])"


text \<open>
  The exceptions that the two scripts can meet. A \<^verbatim>\<open>CalledProcessError\<close> carries the
  command, the return code and the captured streams; an \<^verbatim>\<open>OSError\<close> its message; a
  \<^verbatim>\<open>KeyError\<close> the missing key.
\<close>

datatype py_exn =
    CalledProcessError "string list" int "string option" "string option"
  | OSError string
  | JSONDecodeError
  | ValueError
  | TypeError
  | KeyError string
  | OverflowError

text \<open>
  What a call of \<^verbatim>\<open>subprocess.run\<close> observes of the child: it either could not be
  started (an \<^verbatim>\<open>OSError\<close> with its message), or it ran and left a return code
  together with the streams the call captured (\<^verbatim>\<open>None\<close> for a stream that was not
  captured).
\<close>

datatype proc_result =
    Spawn_Failed string
  | Exited int "string option" "string option"


section \<open>The Deno test runner (\<^verbatim>\<open>prelude-si/deno/deno_test.py\<close>)\<close>

subsection \<open>Surroundings of the script\<close>

text \<open>
  The file system and the process layer are parameters of the model:
  \<^verbatim>\<open>os.path.abspath\<close>, \<^verbatim>\<open>os.path.exists\<close>, the process layer behind
  \<^verbatim>\<open>subprocess.run(cmd, check=True, text=True)\<close>, and the text \<^verbatim>\<open>str(e)\<close> of an
  exception.
\<close>

record deno_env =
  abspath :: "string \<Rightarrow> string"
  path_exists :: "string \<Rightarrow> bool"
  run_process :: "string list \<Rightarrow> proc_result"
  exception_str :: "py_exn \<Rightarrow> string"

text \<open>The namespace that \<^verbatim>\<open>parse_args\<close> returns.\<close>

record deno_args =
  arg_input :: "string list"
  arg_filter :: "string option"
  arg_ignore :: "string list"
  arg_parallel :: bool
  arg_watch :: bool

text \<open>
  What one run of the script leaves behind: the exit status, the texts printed to standard
  output and to standard error (one entry per \<^verbatim>\<open>print\<close> call), and the command lines
  handed to the process layer, in order.
\<close>

record deno_outcome =
  exit_code :: int
  printed_out :: "string list"
  printed_err :: "string list"
  invocations :: "string list list"

subsection \<open>\<^verbatim>\<open>run_tests\<close>\<close>

text \<open>The loop \<^verbatim>\<open>for ignore in ignore_paths: cmd.append(f"--ignore={ignore}")\<close>.\<close>

fun append_ignores :: "string list \<Rightarrow> string list \<Rightarrow> string list" where
  "append_ignores cmd [] = cmd"
| "append_ignores cmd (ignore # rest) = append_ignores (cmd @ [''--ignore='' @ ignore]) rest"

text \<open>The command line as \<^verbatim>\<open>run_tests\<close> assembles it, statement by statement.\<close>

definition build_cmd ::
  "string list \<Rightarrow> string option \<Rightarrow> string list \<Rightarrow> bool \<Rightarrow> bool \<Rightarrow> string list" where
  "build_cmd input_paths filter_pattern ignore_paths parallel watch =
     (let cmd = [''deno'', ''test''];
          cmd = (case filter_pattern of
                   None \<Rightarrow> cmd
                 | Some pat \<Rightarrow> if pat \<noteq> [] then cmd @ [''--filter'', pat] else cmd);
          cmd = append_ignores cmd ignore_paths;
          cmd = (if parallel then cmd @ [''--parallel''] else cmd);
          cmd = (if watch then cmd @ [''--watch''] else cmd)
      in cmd @ input_paths)"

text \<open>The \<^verbatim>\<open>except subprocess.CalledProcessError\<close> handler: what it prints to standard error.\<close>

definition report_failure :: "string list \<Rightarrow> int \<Rightarrow> string option \<Rightarrow> string option \<Rightarrow> string list" where
  "report_failure cmd returncode out err =
     [''Error running deno test:'',
      ''Command: '' @ join_space cmd,
      ''Exit code: '' @ str_int returncode]
     @ print_if_truthy ''stdout: '' out
     @ print_if_truthy ''stderr: '' err"

text \<open>
  The result of \<^verbatim>\<open>run_tests\<close>: the exception it raises, if any, and what it printed and
  invoked on the way. The call \<^verbatim>\<open>subprocess.run(cmd, check=True, text=True)\<close> asks for no
  capture, so the real process layer leaves \<^verbatim>\<open>None\<close> for both streams; the model
  follows the code for whatever streams the layer hands back.
\<close>

record run_tests_result =
  raised :: "py_exn option"
  rt_out :: "string list"
  rt_err :: "string list"
  rt_calls :: "string list list"

definition run_tests ::
  "deno_env \<Rightarrow> string list \<Rightarrow> string option \<Rightarrow> string list \<Rightarrow> bool \<Rightarrow> bool \<Rightarrow> run_tests_result" where
  "run_tests env input_paths filter_pattern ignore_paths parallel watch =
     (let cmd = build_cmd input_paths filter_pattern ignore_paths parallel watch in
      case run_process env cmd of
        Spawn_Failed msg \<Rightarrow>
          \<lparr>raised = Some (OSError msg), rt_out = [], rt_err = [], rt_calls = [cmd]\<rparr>
      | Exited returncode out err \<Rightarrow>
          if returncode \<noteq> 0 then
            \<lparr>raised = Some (CalledProcessError cmd returncode out err),
             rt_out = [],
             rt_err = report_failure cmd returncode out err,
             rt_calls = [cmd]\<rparr>
          else
            \<lparr>raised = None,
             rt_out = print_if_truthy [] out,
             rt_err = [],
             rt_calls = [cmd]\<rparr>)"

subsection \<open>\<^verbatim>\<open>main\<close> of \<^verbatim>\<open>deno_test.py\<close>\<close>

text \<open>
  The loop over \<^verbatim>\<open>args.input\<close>: \<^verbatim>\<open>Inl p\<close> is the early \<^verbatim>\<open>return 1\<close> at the first
  absolute path \<^verbatim>\<open>p\<close> that does not exist, \<^verbatim>\<open>Inr\<close> the list \<^verbatim>\<open>input_paths\<close> when
  the loop runs to its end.
\<close>

fun resolve_inputs :: "deno_env \<Rightarrow> string list \<Rightarrow> string list \<Rightarrow> string + string list" where
  "resolve_inputs env input_paths [] = Inr input_paths"
| "resolve_inputs env input_paths (input_path # rest) =
     (let abs_path = abspath env input_path in
      if \<not> path_exists env abs_path then Inl abs_path
      else resolve_inputs env (input_paths @ [abs_path]) rest)"

text \<open>
  \<^verbatim>\<open>main\<close>, from the namespace that \<^verbatim>\<open>parse_args\<close> has returned. The process layer
  is reached through \<^verbatim>\<open>run_tests\<close> only; every exception that \<^verbatim>\<open>run_tests\<close> raises
  is caught, reported and turned into the status 1.
\<close>

definition deno_test_main :: "deno_env \<Rightarrow> deno_args \<Rightarrow> deno_outcome" where
  "deno_test_main env args =
     (case resolve_inputs env [] (arg_input args) of
        Inl abs_path \<Rightarrow>
          \<lparr>exit_code = 1, printed_out = [],
           printed_err = [''Error: Input path not found: '' @ abs_path],
           invocations = []\<rparr>
      | Inr input_paths \<Rightarrow>
          (let r = run_tests env input_paths (arg_filter args) (arg_ignore args)
                     (arg_parallel args) (arg_watch args) in
           case raised r of
             Some e \<Rightarrow>
               \<lparr>exit_code = 1, printed_out = rt_out r,
                printed_err = rt_err r @ [''Error: '' @ exception_str env e],
                invocations = rt_calls r\<rparr>
           | None \<Rightarrow>
               \<lparr>exit_code = 0, printed_out = rt_out r @ [''Tests completed successfully.''],
                printed_err = rt_err r,
                invocations = rt_calls r\<rparr>))"


section \<open>The Git metadata generator (\<^verbatim>\<open>prelude-si/git/git_info.py\<close>)\<close>

subsection \<open>Python values and dictionaries\<close>

text \<open>
  The values that \<^verbatim>\<open>json.loads\<close> can put into the mapping, and those that
  \<^verbatim>\<open>finalize\<close> adds. A float stands for the real number it denotes, or for one of the
  three special values; the script does no arithmetic on it.
\<close>

datatype pyfloat = Finite real | PosInf | NegInf | NaN

datatype pyval =
    PNone
  | PBool bool
  | PInt int
  | PFloat pyfloat
  | PStr string
  | PList "pyval list"
  | PDict "(string \<times> pyval) list"

text \<open>\<^verbatim>\<open>if v:\<close>\<close>

fun truthy :: "pyval \<Rightarrow> bool" where
  "truthy PNone = False"
| "truthy (PBool b) = b"
| "truthy (PInt i) = (i \<noteq> 0)"
| "truthy (PFloat f) = (f \<noteq> Finite 0)"
| "truthy (PStr s) = (s \<noteq> [])"
| "truthy (PList xs) = (xs \<noteq> [])"
| "truthy (PDict kvs) = (kvs \<noteq> [])"

text \<open>\<^verbatim>\<open>v == True\<close>: \<^verbatim>\<open>True\<close> is the integer 1, and numbers compare by value.\<close>

fun equals_True :: "pyval \<Rightarrow> bool" where
  "equals_True (PBool b) = b"
| "equals_True (PInt i) = (i = 1)"
| "equals_True (PFloat f) = (f = Finite 1)"
| "equals_True v = False"

text \<open>
  A \<^verbatim>\<open>dict\<close> with string keys keeps its items in insertion order:
  an association list whose keys are distinct.
\<close>

type_synonym pydict = "(string \<times> pyval) list"

text \<open>\<^verbatim>\<open>d[k] = v\<close>: an existing key keeps its place, a new key goes to the end.\<close>

fun dict_setitem :: "pydict \<Rightarrow> string \<Rightarrow> pyval \<Rightarrow> pydict" where
  "dict_setitem [] k v = [(k, v)]"
| "dict_setitem ((k', v') # d) k v =
     (if k' = k then (k, v) # d else (k', v') # dict_setitem d k v)"

text \<open>\<^verbatim>\<open>d.update(other)\<close>\<close>

fun dict_update :: "pydict \<Rightarrow> pydict \<Rightarrow> pydict" where
  "dict_update d [] = d"
| "dict_update d ((k, v) # other) = dict_update (dict_setitem d k v) other"

text \<open>\<^verbatim>\<open>d.get(k)\<close>, which is \<^verbatim>\<open>None\<close> for a missing key.\<close>

definition dict_get :: "pydict \<Rightarrow> string \<Rightarrow> pyval" where
  "dict_get d k = (case map_of d k of None \<Rightarrow> PNone | Some v \<Rightarrow> v)"

text \<open>\<^verbatim>\<open>d[k]\<close>, which raises \<^verbatim>\<open>KeyError\<close> for a missing key.\<close>

definition dict_getitem :: "pydict \<Rightarrow> string \<Rightarrow> py_exn + pyval" where
  "dict_getitem d k = (case map_of d k of None \<Rightarrow> Inl (KeyError k) | Some v \<Rightarrow> Inr v)"

text \<open>\<^verbatim>\<open>a + b\<close> where \<^verbatim>\<open>a\<close> is a string.\<close>

fun str_add :: "string \<Rightarrow> pyval \<Rightarrow> py_exn + string" where
  "str_add a (PStr b) = Inr (a @ b)"
| "str_add a v = Inl TypeError"

text \<open>
  \<^verbatim>\<open>json.dump(data, fp, sort_keys=True)\<close> emits one object whose members are the items
  of the dictionary sorted by key (\<^verbatim>\<open>sorted(dct.items())\<close>, on strings the order by
  code point). The emitted object is represented by the list of its members in the order in
  which they are written.
\<close>

definition json_dump_sorted :: "pydict \<Rightarrow> (string \<times> pyval) list" where
  "json_dump_sorted data = sort_key fst data"

subsection \<open>The \<^verbatim>\<open>datetime\<close> library\<close>

text \<open>
  A \<^verbatim>\<open>datetime\<close> object: the calendar fields and the offset from UTC in seconds of an
  aware object, \<^verbatim>\<open>None\<close> for a naive one.
\<close>

record datetime =
  dt_year :: int
  dt_month :: int
  dt_day :: int
  dt_hour :: int
  dt_minute :: int
  dt_second :: int
  dt_microsecond :: int
  dt_utcoffset :: "int option"

text \<open>The proleptic Gregorian ordinal of the library, day 1 being 0001-01-01.\<close>

definition is_leap :: "int \<Rightarrow> bool" where
  "is_leap y = (y mod 4 = 0 \<and> (if y mod 100 = 0 then y mod 400 = 0 else True))"

definition days_before_year :: "int \<Rightarrow> int" where
  "days_before_year y = (y - 1) * 365 + (y - 1) div 4 - (y - 1) div 100 + (y - 1) div 400"

definition DAYS_IN_MONTH :: "int list" where
  "DAYS_IN_MONTH = [31, 28, 31, 30, 31, 30, 31, 31, 30, 31, 30, 31]"

definition DAYS_BEFORE_MONTH :: "int list" where
  "DAYS_BEFORE_MONTH = [0, 31, 59, 90, 120, 151, 181, 212, 243, 273, 304, 334]"

text \<open>Both tables are read for months 1 to 12 only.\<close>

definition days_in_month :: "int \<Rightarrow> int \<Rightarrow> int" where
  "days_in_month y m =
     (if m = 2 \<and> is_leap y then 29 else DAYS_IN_MONTH ! nat (m - 1))"

definition days_before_month :: "int \<Rightarrow> int \<Rightarrow> int" where
  "days_before_month y m =
     DAYS_BEFORE_MONTH ! nat (m - 1) + (if m > 2 \<and> is_leap y then 1 else 0)"

definition ymd2ord :: "int \<Rightarrow> int \<Rightarrow> int \<Rightarrow> int" where
  "ymd2ord y m d = days_before_year y + days_before_month y m + d"

definition ord2ymd :: "int \<Rightarrow> int \<times> int \<times> int" where
  "ord2ymd ordinal =
     (let n = ordinal - 1;
          n400 = n div 146097; n = n mod 146097;
          y = n400 * 400 + 1;
          n100 = n div 36524; n = n mod 36524;
          n4 = n div 1461; n = n mod 1461;
          n1 = n div 365; n = n mod 365;
          y = y + n100 * 100 + n4 * 4 + n1
      in if n1 = 4 \<or> n100 = 4 then (y - 1, 12, 31)
         else
           (let leapyear = (n1 = 3 \<and> (if n4 = 24 then n100 = 3 else True));
                m = (n + 50) div 32;
                preceding = DAYS_BEFORE_MONTH ! nat (m - 1) + (if m > 2 \<and> leapyear then 1 else 0)
            in if preceding > n
               then (let m = m - 1;
                         preceding = preceding
                           - (DAYS_IN_MONTH ! nat (m - 1) + (if m = 2 \<and> leapyear then 1 else 0))
                     in (y, m, n - preceding + 1))
               else (y, m, n - preceding + 1)))"

definition MAXORDINAL :: int where
  "MAXORDINAL = 3652059"

text \<open>The ordinal of 1970-01-01 in seconds.\<close>

definition EPOCH_SECONDS :: int where
  "EPOCH_SECONDS = 719163 * 86400"

text \<open>The calendar fields of an object as seconds since the start of ordinal 0.\<close>

definition wall_seconds :: "datetime \<Rightarrow> int" where
  "wall_seconds dt =
     ymd2ord (dt_year dt) (dt_month dt) (dt_day dt) * 86400
       + dt_hour dt * 3600 + dt_minute dt * 60 + dt_second dt"

text \<open>
  The object with the given wall-clock seconds, as the library's \<^verbatim>\<open>datetime + timedelta\<close>
  builds it: \<^verbatim>\<open>OverflowError\<close> outside the years 1 to 9999.
\<close>

definition datetime_of_seconds :: "int \<Rightarrow> int \<Rightarrow> int option \<Rightarrow> py_exn + datetime" where
  "datetime_of_seconds secs us tz =
     (let days = secs div 86400; rem = secs mod 86400 in
      if 0 < days \<and> days \<le> MAXORDINAL then
        (case ord2ymd days of (y, m, d) \<Rightarrow>
           Inr \<lparr>dt_year = y, dt_month = m, dt_day = d,
                dt_hour = rem div 3600, dt_minute = (rem mod 3600) div 60,
                dt_second = rem mod 60, dt_microsecond = us, dt_utcoffset = tz\<rparr>)
      else Inl OverflowError)"

text \<open>Reading decimal digits.\<close>

definition digit_val :: "char \<Rightarrow> nat option" where
  "digit_val c = (let n = (of_char c :: nat) in if 48 \<le> n \<and> n \<le> 57 then Some (n - 48) else None)"

fun parse_digits :: "nat \<Rightarrow> string \<Rightarrow> nat option" where
  "parse_digits acc [] = Some acc"
| "parse_digits acc (c # cs) =
     (case digit_val c of None \<Rightarrow> None | Some d \<Rightarrow> parse_digits (10 * acc + d) cs)"

text \<open>The \<^verbatim>\<open>n\<close> characters from position \<^verbatim>\<open>i\<close> read as a number; all must be digits.\<close>

definition digits_at :: "string \<Rightarrow> nat \<Rightarrow> nat \<Rightarrow> int option" where
  "digits_at s i n =
     (if length s < i + n then None
      else map_option int (parse_digits 0 (take n (drop i s))))"

definition char_at :: "string \<Rightarrow> nat \<Rightarrow> char option" where
  "char_at s i = (if i < length s then Some (s ! i) else None)"

text \<open>
  \<^verbatim>\<open>datetime.fromisoformat\<close>, for the shape that the \<^verbatim>\<open>%cI\<close> placeholder of Git
  produces: \<^verbatim>\<open>YYYY-MM-DD\<close>, one separator character, \<^verbatim>\<open>HH:MM:SS\<close>, and then
  either nothing (a naive object) or a sign and \<^verbatim>\<open>HH:MM\<close> (an aware one). The fields
  are checked as the constructors of the library check them. Every other text is a
  \<^verbatim>\<open>ValueError\<close> here; the further shapes that the library reads are not modelled.
\<close>

definition parse_offset :: "string \<Rightarrow> (py_exn + int option)" where
  "parse_offset tz =
     (if tz = [] then Inr None
      else if length tz = 6 \<and> (char_at tz 0 = Some CHR ''+'' \<or> char_at tz 0 = Some CHR ''-'')
              \<and> char_at tz 3 = Some CHR '':''
      then (case (digits_at tz 1 2, digits_at tz 4 2) of
              (Some hh, Some mm) \<Rightarrow>
                (let off = (if char_at tz 0 = Some CHR ''-'' then - 1 else 1) * (hh * 3600 + mm * 60)
                 in if - 86400 < off \<and> off < 86400 then Inr (Some off) else Inl ValueError)
            | _ \<Rightarrow> Inl ValueError)
      else Inl ValueError)"

definition fromisoformat :: "string \<Rightarrow> py_exn + datetime" where
  "fromisoformat s =
     (if length s < 19 then Inl ValueError
      else if char_at s 4 = Some CHR ''-'' \<and> char_at s 7 = Some CHR ''-''
              \<and> char_at s 13 = Some CHR '':'' \<and> char_at s 16 = Some CHR '':''
      then (case (digits_at s 0 4, digits_at s 5 2, digits_at s 8 2,
                  digits_at s 11 2, digits_at s 14 2, digits_at s 17 2) of
              (Some y, Some m, Some d, Some hh, Some mm, Some ss) \<Rightarrow>
                if 1 \<le> y \<and> 1 \<le> m \<and> m \<le> 12 \<and> 1 \<le> d \<and> d \<le> days_in_month y m
                   \<and> hh < 24 \<and> mm < 60 \<and> ss < 60
                then (case parse_offset (drop 19 s) of
                        Inl e \<Rightarrow> Inl e
                      | Inr tz \<Rightarrow>
                          Inr \<lparr>dt_year = y, dt_month = m, dt_day = d, dt_hour = hh,
                               dt_minute = mm, dt_second = ss, dt_microsecond = 0,
                               dt_utcoffset = tz\<rparr>)
                else Inl ValueError
            | _ \<Rightarrow> Inl ValueError)
      else Inl ValueError)"

text \<open>
  \<^verbatim>\<open>dt.strftime(fmt)\<close> for the directives that the script uses; the year is written
  with four digits, the other fields with two.
\<close>

definition zero_pad :: "nat \<Rightarrow> int \<Rightarrow> string" where
  "zero_pad w i = (let t = str_nat (nat i) in replicate (w - length t) CHR ''0'' @ t)"

definition strftime_directive :: "datetime \<Rightarrow> char \<Rightarrow> string" where
  "strftime_directive dt c =
     (if c = CHR ''Y'' then zero_pad 4 (dt_year dt)
      else if c = CHR ''m'' then zero_pad 2 (dt_month dt)
      else if c = CHR ''d'' then zero_pad 2 (dt_day dt)
      else if c = CHR ''H'' then zero_pad 2 (dt_hour dt)
      else if c = CHR ''M'' then zero_pad 2 (dt_minute dt)
      else if c = CHR ''S'' then zero_pad 2 (dt_second dt)
      else [CHR ''%'', c])"

fun strftime :: "datetime \<Rightarrow> string \<Rightarrow> string" where
  "strftime dt [] = []"
| "strftime dt [c] = [c]"
| "strftime dt (c # d # rest) =
     (if c = CHR ''%'' then strftime_directive dt d @ strftime dt rest
      else c # strftime dt (d # rest))"


subsection \<open>Surroundings of \<^verbatim>\<open>git_info.py\<close>\<close>

text \<open>
  The parameters of the model:
  \<^item> \<^verbatim>\<open>git_run\<close>: the process layer behind \<^verbatim>\<open>subprocess.run(cmd, capture_output=True)\<close>;
  \<^item> \<^verbatim>\<open>json_loads\<close>: the mapping that \<^verbatim>\<open>json.loads\<close> returns for the text of a JSON
    object, and \<^verbatim>\<open>None\<close> where it raises because the text is not valid JSON (a valid
    text that is no object is not modelled: the format string asks Git for an object);
  \<^item> \<^verbatim>\<open>clock_us\<close>: the moment at which \<^verbatim>\<open>datetime.utcnow()\<close> is called, in
    microseconds since the Unix epoch;
  \<^item> \<^verbatim>\<open>local_to_epoch\<close>: the local time zone of the machine, as the library's
    \<^verbatim>\<open>_mktime\<close> sees it: from the seconds that a wall-clock reading is after
    1970-01-01T00:00:00 of the same clock, to the Unix time of the moment at which local
    clocks show that reading (the identity where the local zone is UTC);
  \<^item> \<^verbatim>\<open>can_open\<close>: whether \<^verbatim>\<open>open(path, "w")\<close> succeeds.
\<close>

record git_env =
  git_run :: "string list \<Rightarrow> proc_result"
  json_loads :: "string \<Rightarrow> pydict option"
  clock_us :: int
  local_to_epoch :: "int \<Rightarrow> int"
  can_open :: "string \<Rightarrow> bool"

text \<open>
  \<^verbatim>\<open>datetime.utcnow()\<close>: a naive object that shows the UTC reading of the clock.
\<close>

definition utcnow :: "git_env \<Rightarrow> py_exn + datetime" where
  "utcnow env =
     datetime_of_seconds (EPOCH_SECONDS + clock_us env div 1000000) (clock_us env mod 1000000) None"

text \<open>
  \<^verbatim>\<open>dt.astimezone(timezone.utc)\<close>: an aware object is moved by its offset, a naive one
  is taken as local time.
\<close>

definition astimezone_utc :: "git_env \<Rightarrow> datetime \<Rightarrow> py_exn + datetime" where
  "astimezone_utc env dt =
     (case dt_utcoffset dt of
        Some off \<Rightarrow> datetime_of_seconds (wall_seconds dt - off) (dt_microsecond dt) (Some 0)
      | None \<Rightarrow>
          datetime_of_seconds
            (EPOCH_SECONDS + local_to_epoch env (wall_seconds dt - EPOCH_SECONDS))
            (dt_microsecond dt) (Some 0))"

text \<open>
  \<^verbatim>\<open>dt.timestamp()\<close>, in microseconds (the library returns the float of seconds):
  for an aware object the distance from 1970-01-01T00:00:00+00:00, for a naive object
  \<^verbatim>\<open>_mktime\<close>, which reads the fields as local time.
\<close>

definition timestamp_us :: "git_env \<Rightarrow> datetime \<Rightarrow> int" where
  "timestamp_us env dt =
     (case dt_utcoffset dt of
        Some off \<Rightarrow> (wall_seconds dt - off - EPOCH_SECONDS) * 1000000 + dt_microsecond dt
      | None \<Rightarrow>
          local_to_epoch env (wall_seconds dt - EPOCH_SECONDS) * 1000000 + dt_microsecond dt)"

text \<open>
  \<^verbatim>\<open>round(x)\<close> for \<^verbatim>\<open>x\<close> given in microseconds: to the nearest integer, a tie to
  the even one. (The float that the library rounds is the nearest double to this number of
  seconds; the two roundings agree while the seconds stay below \<open>2^34\<close>.)
\<close>

definition round_us :: "int \<Rightarrow> int" where
  "round_us us =
     (let q = us div 1000000; r = us mod 1000000 in
      if r < 500000 then q
      else if r > 500000 then q + 1
      else if even q then q else q + 1)"

subsection \<open>The script\<close>

abbreviation ABBREVIATED_COMMIT_HASH :: string where
  "ABBREVIATED_COMMIT_HASH \<equiv> ''abbreviated_commit_hash''"

abbreviation CAL_VER :: string where
  "CAL_VER \<equiv> ''cal_ver''"

abbreviation ARTIFACT_VER :: string where
  "ARTIFACT_VER \<equiv> ''artifact_ver''"

abbreviation COMMITER_DATE_STRICT :: string where
  "COMMITER_DATE_STRICT \<equiv> ''committer_date_strict_iso8601''"

abbreviation COMMITER_DATE_TIMESTAMP :: string where
  "COMMITER_DATE_TIMESTAMP \<equiv> ''committer_date_timestamp''"

abbreviation COMMIT_HASH :: string where
  "COMMIT_HASH \<equiv> ''commit_hash''"

abbreviation IS_DIRTY :: string where
  "IS_DIRTY \<equiv> ''is_dirty''"

text \<open>
  The format string of \<^verbatim>\<open>parse_git_show\<close>: \<^verbatim>\<open>json.dumps\<close> of the three placeholders
  with \<^verbatim>\<open>indent=0\<close> and the separators \<^verbatim>\<open>(',', ':')\<close>, the newlines removed.
\<close>

definition format_str :: string where
  \<open>format_str = ''{"abbreviated_commit_hash":"%h","committer_date_strict_iso8601":"%cI","commit_hash":"%H"}''\<close>

definition git_show_cmd :: "string list" where
  "git_show_cmd = [''git'', ''show'', ''--no-patch'', ''--format=format:'' @ format_str]"

definition git_status_cmd :: "string list" where
  "git_status_cmd = [''git'', ''status'', ''--porcelain'', ''--ignore-submodules'', ''-unormal'']"

text \<open>
  \<^verbatim>\<open>subprocess.run(cmd, capture_output=True)\<close> followed by
  \<^verbatim>\<open>result.check_returncode()\<close>: the captured standard output of a child that exited
  with status zero.
\<close>

definition run_checked :: "git_env \<Rightarrow> string list \<Rightarrow> py_exn + string option" where
  "run_checked env cmd =
     (case git_run env cmd of
        Spawn_Failed msg \<Rightarrow> Inl (OSError msg)
      | Exited returncode out err \<Rightarrow>
          if returncode \<noteq> 0 then Inl (CalledProcessError cmd returncode out err)
          else Inr out)"

definition parse_git_show :: "git_env \<Rightarrow> py_exn + pydict" where
  "parse_git_show env =
     (case run_checked env git_show_cmd of
        Inl e \<Rightarrow> Inl e
      | Inr None \<Rightarrow> Inl TypeError
      | Inr (Some out) \<Rightarrow>
          (case json_loads env out of
             None \<Rightarrow> Inl JSONDecodeError
           | Some d \<Rightarrow> Inr d))"

definition parse_git_status :: "git_env \<Rightarrow> py_exn + pydict" where
  "parse_git_status env =
     (case run_checked env git_status_cmd of
        Inl e \<Rightarrow> Inl e
      | Inr out \<Rightarrow>
          Inr [(IS_DIRTY, PBool (case out of None \<Rightarrow> False | Some text \<Rightarrow> text \<noteq> []))])"

text \<open>
  \<^verbatim>\<open>finalize\<close> changes the dictionary in place; the model returns the changed
  dictionary, or the exception that leaves the function.
\<close>

definition finalize :: "git_env \<Rightarrow> pydict \<Rightarrow> py_exn + pydict" where
  "finalize env data =
     (let dt_str = dict_get data COMMITER_DATE_STRICT;
          is_dirty = dict_get data IS_DIRTY
      in if truthy dt_str then
           (case (if equals_True is_dirty then utcnow env
                  else (case dt_str of
                          PStr s \<Rightarrow>
                            (case fromisoformat s of
                               Inl e \<Rightarrow> Inl e
                             | Inr dt \<Rightarrow> astimezone_utc env dt)
                        | _ \<Rightarrow> Inl TypeError)) of
              Inl e \<Rightarrow> Inl e
            | Inr dt_utc \<Rightarrow>
                (let data = dict_update data
                       [(CAL_VER, PStr (strftime dt_utc ''%Y%m%d.%H%M%S.0'')),
                        (COMMITER_DATE_STRICT, PStr (strftime dt_utc ''%Y%m%dT%H:%M:%SZ'')),
                        (COMMITER_DATE_TIMESTAMP, PInt (round_us (timestamp_us env dt_utc)))]
                 in case dict_getitem data ''cal_ver'' of
                      Inl e \<Rightarrow> Inl e
                    | Inr cal_ver \<Rightarrow>
                        (case cal_ver of
                           PStr c \<Rightarrow>
                             (case dict_getitem data ''abbreviated_commit_hash'' of
                                Inl e \<Rightarrow> Inl e
                              | Inr h \<Rightarrow>
                                  (case str_add (c @ ''-sha'') h of
                                     Inl e \<Rightarrow> Inl e
                                   | Inr v \<Rightarrow> Inr (dict_update data [(ARTIFACT_VER, PStr v)])))
                         | _ \<Rightarrow> Inl TypeError)))
         else Inr data)"

text \<open>Where \<^verbatim>\<open>json.dump\<close> writes.\<close>

datatype destination = Stdout | File string

text \<open>
  What one run of the script leaves behind: the value that \<^verbatim>\<open>main\<close> returns or the
  exception that escapes it, and the objects written, each with its destination.
\<close>

record git_outcome =
  returned :: "py_exn + int"
  written :: "(destination \<times> (string \<times> pyval) list) list"

text \<open>
  \<^verbatim>\<open>main\<close> of \<^verbatim>\<open>git_info.py\<close>, after \<^verbatim>\<open>parse_args\<close>: \<^verbatim>\<open>output\<close> is \<^verbatim>\<open>args.output\<close>,
  which is \<^verbatim>\<open>"-"\<close> when the command line names no file.
\<close>

definition git_info_main :: "git_env \<Rightarrow> string \<Rightarrow> git_outcome" where
  "git_info_main env output =
     (case parse_git_status env of
        Inl e \<Rightarrow> \<lparr>returned = Inl e, written = []\<rparr>
      | Inr status \<Rightarrow>
          (case parse_git_show env of
             Inl e \<Rightarrow> \<lparr>returned = Inl e, written = []\<rparr>
           | Inr shown \<Rightarrow>
               (case finalize env (dict_update (dict_update [] status) shown) of
                  Inl e \<Rightarrow> \<lparr>returned = Inl e, written = []\<rparr>
                | Inr data \<Rightarrow>
                    if output = ''-'' then
                      \<lparr>returned = Inr 0, written = [(Stdout, json_dump_sorted data)]\<rparr>
                    else if can_open env output then
                      \<lparr>returned = Inr 0, written = [(File output, json_dump_sorted data)]\<rparr>
                    else
                      \<lparr>returned = Inl (OSError output), written = []\<rparr>)))"

text \<open>
  \<^verbatim>\<open>sys.exit(main())\<close>: the exit status of the process. An exception that nothing catches
  ends the interpreter with status 1.
\<close>

definition exit_status :: "py_exn + int \<Rightarrow> int" where
  "exit_status r = (case r of Inl e \<Rightarrow> 1 | Inr code \<Rightarrow> code)"


section \<open>Example surroundings\<close>

text \<open>
  A working directory \<^verbatim>\<open>/w\<close> in which every path exists except \<^verbatim>\<open>/w/missing.ts\<close>, and a
  test command that fails with status 3 in watch mode and succeeds otherwise.
\<close>

definition example_abspath :: "string \<Rightarrow> string" where
  "example_abspath p = ''/w/'' @ p"

definition example_exists :: "string \<Rightarrow> bool" where
  "example_exists p = (if p = ''/w/missing.ts'' then False else True)"

definition example_run :: "string list \<Rightarrow> proc_result" where
  "example_run cmd = (if ''--watch'' \<in> set cmd then Exited 3 None None else Exited 0 None None)"

definition example_exception_str :: "py_exn \<Rightarrow> string" where
  "example_exception_str e =
     (case e of
        CalledProcessError cmd returncode out err \<Rightarrow>
          ''Command returned non-zero exit status '' @ str_int returncode @ ''.''
      | OSError msg \<Rightarrow> msg
      | _ \<Rightarrow> [])"

definition example_deno_env :: deno_env where
  "example_deno_env =
     \<lparr>abspath = example_abspath, path_exists = example_exists,
      run_process = example_run, exception_str = example_exception_str\<rparr>"

definition example_args :: deno_args where
  "example_args =
     \<lparr>arg_input = [''a.ts'', ''b.ts''], arg_filter = Some ''foo'', arg_ignore = [''x'', ''y''],
      arg_parallel = True, arg_watch = False\<rparr>"


text \<open>
  A repository whose last commit is \<^verbatim>\<open>abc1234\<close> of 2024-01-15T10:30:00+00:00. The status
  query prints \<^verbatim>\<open>status_text\<close>, the show query prints \<^verbatim>\<open>show_text\<close>; the clock
  reads 2024-03-01T12:00:00.5 UTC (1709294400.5 seconds after the epoch), and local time is
  \<^verbatim>\<open>zone\<close> seconds ahead of UTC.
\<close>

definition example_show_text :: string where
  \<open>example_show_text = ''{"abbreviated_commit_hash":"abc1234","committer_date_strict_iso8601":"2024-01-15T10:30:00+00:00","commit_hash":"abc1234def5678901234567890abcdef12345678"}''\<close>

definition example_shown :: pydict where
  "example_shown =
     [(ABBREVIATED_COMMIT_HASH, PStr ''abc1234''),
      (COMMITER_DATE_STRICT, PStr ''2024-01-15T10:30:00+00:00''),
      (COMMIT_HASH, PStr ''abc1234def5678901234567890abcdef12345678'')]"

definition example_git_run :: "string \<Rightarrow> string \<Rightarrow> string list \<Rightarrow> proc_result" where
  "example_git_run status_text show_text cmd =
     (if cmd = git_status_cmd then Exited 0 (Some status_text) (Some [])
      else if cmd = git_show_cmd then Exited 0 (Some show_text) (Some [])
      else Exited 1 (Some []) (Some ''git: not a git command''))"

definition example_json_loads :: "string \<Rightarrow> pydict option" where
  "example_json_loads text = (if text = example_show_text then Some example_shown else None)"

definition example_zone :: "int \<Rightarrow> int \<Rightarrow> int" where
  "example_zone zone t = t - zone"

definition example_can_open :: "string \<Rightarrow> bool" where
  "example_can_open path = True"

definition example_git_env :: "string \<Rightarrow> string \<Rightarrow> int \<Rightarrow> git_env" where
  "example_git_env status_text show_text zone =
     \<lparr>git_run = example_git_run status_text show_text,
      json_loads = example_json_loads,
      clock_us = 1709294400500000,
      local_to_epoch = example_zone zone,
      can_open = example_can_open\<rparr>"


section \<open>Properties of the Deno test runner\<close>

subsection \<open>The command line\<close>

lemma append_ignores_eq:
  "append_ignores cmd ignore_paths = cmd @ map (\<lambda>i. ''--ignore='' @ i) ignore_paths"
  by (induction ignore_paths arbitrary: cmd) simp_all

lemma build_cmd_eq:
  "build_cmd input_paths filter_pattern ignore_paths parallel watch =
     [''deno'', ''test'']
     @ (case filter_pattern of
          None \<Rightarrow> []
        | Some pat \<Rightarrow> if pat \<noteq> [] then [''--filter'', pat] else [])
     @ map (\<lambda>i. ''--ignore='' @ i) ignore_paths
     @ (if parallel then [''--parallel''] else [])
     @ (if watch then [''--watch''] else [])
     @ input_paths"
  by (simp add: build_cmd_def append_ignores_eq Let_def split: option.splits)

lemma resolve_inputs_all:
  "list_all (\<lambda>p. path_exists env (abspath env p)) ps \<Longrightarrow>
   resolve_inputs env acc ps = Inr (acc @ map (abspath env) ps)"
  by (induction ps arbitrary: acc) (simp_all add: Let_def)

lemma resolve_inputs_missing:
  "find (\<lambda>p. \<not> path_exists env (abspath env p)) ps = Some q \<Longrightarrow>
   resolve_inputs env acc ps = Inl (abspath env q)"
  by (induction ps arbitrary: acc) (auto simp add: Let_def split: if_splits)

lemma find_missing:
  "p \<in> set ps \<Longrightarrow> \<not> P p \<Longrightarrow> \<exists>q. find (\<lambda>p. \<not> P p) ps = Some q"
  by (induction ps) auto

lemma run_tests_calls:
  "rt_calls (run_tests env ps pat ig par w) = [build_cmd ps pat ig par w]"
  by (simp add: run_tests_def Let_def split: proc_result.splits)

lemma main_invocations:
  "list_all (\<lambda>p. path_exists env (abspath env p)) (arg_input args) \<Longrightarrow>
   invocations (deno_test_main env args) =
     [build_cmd (map (abspath env) (arg_input args)) (arg_filter args) (arg_ignore args)
        (arg_parallel args) (arg_watch args)]"
  by (simp add: deno_test_main_def resolve_inputs_all Let_def run_tests_calls split: option.splits)

lemma example_inputs_exist:
  "list_all (\<lambda>p. path_exists example_deno_env (abspath example_deno_env p)) [''a.ts'', ''b.ts'']"
  by (simp add: example_deno_env_def example_abspath_def example_exists_def)

text \<open>
  C1, as stated, at a filter that is present and empty: the claim puts
  \<^verbatim>\<open>--filter\<close> and the empty pattern into the command line, the adapter runs the command
  without them.
\<close>

theorem empty_filter_counterexample:
  "invocations (deno_test_main example_deno_env
       \<lparr>arg_input = [''a.ts''], arg_filter = Some [], arg_ignore = [],
        arg_parallel = False, arg_watch = False\<rparr>)
     = [[''deno'', ''test'', ''/w/a.ts'']]
   \<and> invocations (deno_test_main example_deno_env
       \<lparr>arg_input = [''a.ts''], arg_filter = Some [], arg_ignore = [],
        arg_parallel = False, arg_watch = False\<rparr>)
     \<noteq> [[''deno'', ''test'', ''--filter'', [], ''/w/a.ts'']]"
  by (simp add: deno_test_main_def run_tests_def build_cmd_def Let_def example_deno_env_def
      example_abspath_def example_exists_def example_run_def)

text \<open>
  C1, amended: when every input path exists, the adapter hands exactly one command line to
  the process layer, and it is \<^verbatim>\<open>deno test\<close>, then \<^verbatim>\<open>--filter\<close> and the pattern if a
  filter is present and not the empty string, then one \<^verbatim>\<open>--ignore=\<close> argument per
  ignore entry in input order, then \<^verbatim>\<open>--parallel\<close> if set, then \<^verbatim>\<open>--watch\<close> if set,
  then the absolute forms of the input paths in input order.
\<close>

theorem command_line_order:
  assumes "list_all (\<lambda>p. path_exists env (abspath env p)) (arg_input args)"
  shows "invocations (deno_test_main env args) =
     [[''deno'', ''test'']
      @ (case arg_filter args of
           None \<Rightarrow> []
         | Some pat \<Rightarrow> if pat = [] then [] else [''--filter'', pat])
      @ map (\<lambda>entry. ''--ignore='' @ entry) (arg_ignore args)
      @ (if arg_parallel args then [''--parallel''] else [])
      @ (if arg_watch args then [''--watch''] else [])
      @ map (abspath env) (arg_input args)]"
  using main_invocations [OF assms]
  by (simp add: build_cmd_eq split: option.splits)

theorem command_line_order_witness:
  "list_all (\<lambda>p. path_exists example_deno_env (abspath example_deno_env p)) (arg_input example_args)
   \<and> invocations (deno_test_main example_deno_env example_args) =
       [[''deno'', ''test'', ''--filter'', ''foo'', ''--ignore=x'', ''--ignore=y'', ''--parallel'',
         ''/w/a.ts'', ''/w/b.ts'']]"
proof -
  have ex: "list_all (\<lambda>p. path_exists example_deno_env (abspath example_deno_env p))
              (arg_input example_args)"
    using example_inputs_exist by (simp add: example_args_def)
  show ?thesis
    using ex command_line_order [OF ex]
    by (simp add: example_args_def example_deno_env_def example_abspath_def)
qed

text \<open>
  C10: an empty filter pattern is treated as no filter. The command line built for it is the
  one built without a filter, it holds no \<^verbatim>\<open>--filter\<close> argument before the input
  paths, and the whole run of the adapter is the run without a filter.
\<close>

theorem empty_filter_is_no_filter:
  "build_cmd input_paths (Some []) ignore_paths parallel watch
     = build_cmd input_paths None ignore_paths parallel watch
   \<and> build_cmd input_paths (Some []) ignore_paths parallel watch
     = [''deno'', ''test'']
       @ map (\<lambda>entry. ''--ignore='' @ entry) ignore_paths
       @ (if parallel then [''--parallel''] else [])
       @ (if watch then [''--watch''] else [])
       @ input_paths
   \<and> deno_test_main env (args\<lparr>arg_filter := Some []\<rparr>)
     = deno_test_main env (args\<lparr>arg_filter := None\<rparr>)"
  by (simp add: build_cmd_eq deno_test_main_def run_tests_def Let_def split: sum.splits)

subsection \<open>Failures\<close>

text \<open>
  C2: when some input path does not exist, the adapter exits with status 1, its only output
  is the line on standard error that names the first missing path in its absolute form, and
  nothing is handed to the process layer.
\<close>

theorem missing_input_stops_before_invocation:
  assumes "p \<in> set (arg_input args)"
      and "\<not> path_exists env (abspath env p)"
  shows "\<exists>q. find (\<lambda>p. \<not> path_exists env (abspath env p)) (arg_input args) = Some q
           \<and> deno_test_main env args =
               \<lparr>exit_code = 1, printed_out = [],
                printed_err = [''Error: Input path not found: '' @ abspath env q],
                invocations = []\<rparr>"
proof -
  from assms obtain q
    where q: "find (\<lambda>p. \<not> path_exists env (abspath env p)) (arg_input args) = Some q"
    using find_missing [of p "arg_input args" "\<lambda>p. path_exists env (abspath env p)"] by blast
  have "resolve_inputs env [] (arg_input args) = Inl (abspath env q)"
    by (rule resolve_inputs_missing [OF q])
  then have "deno_test_main env args =
      \<lparr>exit_code = 1, printed_out = [],
       printed_err = [''Error: Input path not found: '' @ abspath env q],
       invocations = []\<rparr>"
    by (simp add: deno_test_main_def)
  with q show ?thesis by blast
qed

theorem missing_input_stops_before_invocation_witness:
  "''missing.ts'' \<in> set [''a.ts'', ''missing.ts'', ''b.ts'']
   \<and> \<not> path_exists example_deno_env (abspath example_deno_env ''missing.ts'')
   \<and> deno_test_main example_deno_env (example_args\<lparr>arg_input := [''a.ts'', ''missing.ts'', ''b.ts'']\<rparr>) =
       \<lparr>exit_code = 1, printed_out = [],
        printed_err = [''Error: Input path not found: /w/missing.ts''],
        invocations = []\<rparr>"
proof -
  let ?args = "example_args\<lparr>arg_input := [''a.ts'', ''missing.ts'', ''b.ts'']\<rparr>"
  have a: "''missing.ts'' \<in> set (arg_input ?args)" by simp
  have b: "\<not> path_exists example_deno_env (abspath example_deno_env ''missing.ts'')"
    by (simp add: example_deno_env_def example_abspath_def example_exists_def)
  from missing_input_stops_before_invocation [OF a b] obtain q
    where q: "find (\<lambda>p. \<not> path_exists example_deno_env (abspath example_deno_env p))
                (arg_input ?args) = Some q"
      and m: "deno_test_main example_deno_env ?args =
               \<lparr>exit_code = 1, printed_out = [],
                printed_err = [''Error: Input path not found: '' @ abspath example_deno_env q],
                invocations = []\<rparr>"
    by blast
  from q have "q = ''missing.ts''"
    by (simp add: example_deno_env_def example_abspath_def example_exists_def)
  with m b show ?thesis
    by (simp add: example_deno_env_def example_abspath_def)
qed

text \<open>
  C6: when every input path exists and the test command exits with a non-zero status, the
  adapter runs the command once, prints to standard error the label, the command line, the
  exit code, the captured standard output and standard error where there is any, and the
  line of the top-level handler, and exits with status 1.
\<close>

theorem failed_invocation_is_reported:
  assumes "list_all (\<lambda>p. path_exists env (abspath env p)) (arg_input args)"
      and "cmd = build_cmd (map (abspath env) (arg_input args)) (arg_filter args)
                   (arg_ignore args) (arg_parallel args) (arg_watch args)"
      and "run_process env cmd = Exited returncode out err"
      and "returncode \<noteq> 0"
  shows "deno_test_main env args =
     \<lparr>exit_code = 1, printed_out = [],
      printed_err =
        [''Error running deno test:'',
         ''Command: '' @ join_space cmd,
         ''Exit code: '' @ str_int returncode]
        @ (case out of None \<Rightarrow> [] | Some text \<Rightarrow> if text = [] then [] else [''stdout: '' @ text])
        @ (case err of None \<Rightarrow> [] | Some text \<Rightarrow> if text = [] then [] else [''stderr: '' @ text])
        @ [''Error: '' @ exception_str env (CalledProcessError cmd returncode out err)],
      invocations = [cmd]\<rparr>"
proof -
  have r: "resolve_inputs env [] (arg_input args) = Inr (map (abspath env) (arg_input args))"
    using resolve_inputs_all [OF assms(1), of "[]"] by simp
  have o: "print_if_truthy label out =
      (case out of None \<Rightarrow> [] | Some text \<Rightarrow> if text = [] then [] else [label @ text])"
    for label out
    by (cases out) simp_all
  show ?thesis
    using assms(2-4) r
    by (simp add: deno_test_main_def run_tests_def report_failure_def Let_def o)
qed

theorem failed_invocation_is_reported_witness:
  "list_all (\<lambda>p. path_exists example_deno_env (abspath example_deno_env p))
     (arg_input (example_args\<lparr>arg_watch := True\<rparr>))
   \<and> run_process example_deno_env
        [''deno'', ''test'', ''--filter'', ''foo'', ''--ignore=x'', ''--ignore=y'', ''--parallel'',
         ''--watch'', ''/w/a.ts'', ''/w/b.ts''] = Exited 3 None None
   \<and> (3::int) \<noteq> 0
   \<and> deno_test_main example_deno_env (example_args\<lparr>arg_watch := True\<rparr>) =
       \<lparr>exit_code = 1, printed_out = [],
        printed_err =
          [''Error running deno test:'',
           ''Command: deno test --filter foo --ignore=x --ignore=y --parallel --watch /w/a.ts /w/b.ts'',
           ''Exit code: 3'',
           ''Error: Command returned non-zero exit status 3.''],
        invocations =
          [[''deno'', ''test'', ''--filter'', ''foo'', ''--ignore=x'', ''--ignore=y'', ''--parallel'',
            ''--watch'', ''/w/a.ts'', ''/w/b.ts'']]\<rparr>"
proof -
  let ?args = "example_args\<lparr>arg_watch := True\<rparr>"
  let ?cmd = "[''deno'', ''test'', ''--filter'', ''foo'', ''--ignore=x'', ''--ignore=y'',
               ''--parallel'', ''--watch'', ''/w/a.ts'', ''/w/b.ts'']"
  have ex: "list_all (\<lambda>p. path_exists example_deno_env (abspath example_deno_env p))
              (arg_input ?args)"
    using example_inputs_exist by (simp add: example_args_def)
  have cmd: "?cmd = build_cmd (map (abspath example_deno_env) (arg_input ?args))
                      (arg_filter ?args) (arg_ignore ?args) (arg_parallel ?args) (arg_watch ?args)"
    by (simp add: build_cmd_eq example_args_def example_deno_env_def example_abspath_def)
  have run: "run_process example_deno_env ?cmd = Exited 3 None None"
    by (simp add: example_deno_env_def example_run_def)
  have nz: "(3::int) \<noteq> 0" by simp
  have three: "str_int 3 = ''3''"
    by (simp add: str_int_def str_nat.simps digit_char_def)
  show ?thesis
    using ex run failed_invocation_is_reported [OF ex cmd run nz]
    by (simp add: three example_deno_env_def example_exception_str_def)
qed

section \<open>Properties of the Git metadata generator\<close>

subsection \<open>Dictionaries\<close>

lemma map_of_setitem: "map_of (dict_setitem d k v) = (map_of d)(k \<mapsto> v)"
  by (induction d k v rule: dict_setitem.induct) (auto simp: fun_eq_iff)

lemma keys_setitem: "set (map fst (dict_setitem d k v)) = insert k (set (map fst d))"
  by (induction d k v rule: dict_setitem.induct) auto

lemma distinct_setitem:
  "distinct (map fst d) \<Longrightarrow> distinct (map fst (dict_setitem d k v))"
  by (induction d k v rule: dict_setitem.induct) (auto simp: keys_setitem simp del: set_map)

lemma distinct_update:
  "distinct (map fst d) \<Longrightarrow> distinct (map fst (dict_update d other))"
  by (induction d other rule: dict_update.induct) (simp_all add: distinct_setitem)

lemma dict_get_setitem:
  "dict_get (dict_setitem d k v) k' = (if k' = k then v else dict_get d k')"
  by (simp add: dict_get_def map_of_setitem)

lemma dict_getitem_setitem:
  "dict_getitem (dict_setitem d k v) k' = (if k' = k then Inr v else dict_getitem d k')"
  by (simp add: dict_getitem_def map_of_setitem)

lemma dict_getitem_Inr: "dict_getitem d k = Inr v \<longleftrightarrow> map_of d k = Some v"
  by (simp add: dict_getitem_def split: option.splits)

lemma str_add_Inr: "str_add a v = Inr r \<longleftrightarrow> (\<exists>b. v = PStr b \<and> r = a @ b)"
  by (cases v) auto

subsection \<open>The emitted object\<close>

lemma json_dump_sorted_keys:
  "distinct (map fst data) \<Longrightarrow> sorted_wrt (<) (map fst (json_dump_sorted data))"
proof -
  assume d: "distinct (map fst data)"
  have "mset (map fst (json_dump_sorted data)) = mset (map fst data)"
    by (simp add: json_dump_sorted_def)
  then have "distinct (map fst (json_dump_sorted data))"
    using d by (metis mset_eq_imp_distinct_iff)
  then show ?thesis
    by (simp add: strict_sorted_iff json_dump_sorted_def)
qed

lemma json_dump_sorted_order_free:
  assumes "distinct (map fst data)" and "distinct (map fst data')" and "set data' = set data"
  shows "json_dump_sorted data' = json_dump_sorted data"
proof -
  have "distinct data" "distinct data'" "inj_on fst (set data')"
    using assms by (simp_all add: distinct_map)
  then have "mset data' = mset data"
    using assms(3) by (simp add: set_eq_iff_mset_eq_distinct)
  then show ?thesis
    unfolding json_dump_sorted_def
    using \<open>inj_on fst (set data')\<close> by (rule sort_key_eq_sort_key)
qed

subsection \<open>What \<^verbatim>\<open>finalize\<close> returns\<close>

lemma finalize_absent:
  "\<not> truthy (dict_get data COMMITER_DATE_STRICT) \<Longrightarrow> finalize env data = Inr data"
  by (simp add: finalize_def Let_def)

lemma finalize_derived:
  assumes "finalize env data = Inr data'"
      and "truthy (dict_get data COMMITER_DATE_STRICT)"
  shows "\<exists>dt_utc h.
           (if equals_True (dict_get data IS_DIRTY) then utcnow env = Inr dt_utc
            else \<exists>s dt. dict_get data COMMITER_DATE_STRICT = PStr s
                   \<and> fromisoformat s = Inr dt \<and> astimezone_utc env dt = Inr dt_utc)
         \<and> map_of data ABBREVIATED_COMMIT_HASH = Some (PStr h)
         \<and> data' =
             dict_setitem
               (dict_setitem
                  (dict_setitem
                     (dict_setitem data CAL_VER (PStr (strftime dt_utc ''%Y%m%d.%H%M%S.0'')))
                     COMMITER_DATE_STRICT (PStr (strftime dt_utc ''%Y%m%dT%H:%M:%SZ'')))
                  COMMITER_DATE_TIMESTAMP (PInt (round_us (timestamp_us env dt_utc))))
               ARTIFACT_VER (PStr (strftime dt_utc ''%Y%m%d.%H%M%S.0'' @ ''-sha'' @ h))"
  using assms
  by (auto simp add: finalize_def Let_def dict_getitem_setitem dict_getitem_Inr str_add_Inr
      split: if_splits sum.splits pyval.splits)

lemma finalize_distinct:
  assumes "finalize env data = Inr data'" and "distinct (map fst data)"
  shows "distinct (map fst data')"
proof (cases "truthy (dict_get data COMMITER_DATE_STRICT)")
  case True
  from finalize_derived [OF assms(1) True] assms(2) show ?thesis
    by (auto intro!: distinct_setitem)
next
  case False
  with assms show ?thesis by (simp add: finalize_absent)
qed

lemma parse_git_status_shape:
  "parse_git_status env = Inr status \<Longrightarrow> \<exists>b. status = [(IS_DIRTY, PBool b)]"
  by (auto simp add: parse_git_status_def split: sum.splits)

subsection \<open>The status step\<close>

text \<open>
  C9: when the status query exits with status zero, the status step returns the mapping
  with the single field \<^verbatim>\<open>is_dirty\<close>, which is true if the captured standard output of
  the command is not empty and false otherwise.
\<close>

theorem status_step_single_field:
  assumes "git_run env git_status_cmd = Exited 0 out err"
  shows "parse_git_status env = Inr [(''is_dirty'', PBool (out \<noteq> None \<and> out \<noteq> Some []))]"
  using assms
  by (cases out) (simp_all add: parse_git_status_def run_checked_def)

theorem status_step_single_field_witness:
  "git_run (example_git_env '' M a.txt'' example_show_text 0) git_status_cmd
     = Exited 0 (Some '' M a.txt'') (Some [])
   \<and> parse_git_status (example_git_env '' M a.txt'' example_show_text 0)
     = Inr [(''is_dirty'', PBool True)]
   \<and> git_run (example_git_env [] example_show_text 0) git_status_cmd
     = Exited 0 (Some []) (Some [])
   \<and> parse_git_status (example_git_env [] example_show_text 0)
     = Inr [(''is_dirty'', PBool False)]"
proof -
  have dirty: "git_run (example_git_env '' M a.txt'' example_show_text 0) git_status_cmd
      = Exited 0 (Some '' M a.txt'') (Some [])"
    by (simp add: example_git_env_def example_git_run_def)
  have clean: "git_run (example_git_env [] example_show_text 0) git_status_cmd
      = Exited 0 (Some []) (Some [])"
    by (simp add: example_git_env_def example_git_run_def)
  show ?thesis
    using dirty clean status_step_single_field [OF dirty] status_step_single_field [OF clean]
    by simp
qed

subsection \<open>Output that is not JSON\<close>

text \<open>
  C7: when both queries exit with status zero and the output of the show query is not valid
  JSON, the run ends with the parse error of \<^verbatim>\<open>json.loads\<close>, the exit status is 1, and
  nothing is written, neither to standard output nor to a file.
\<close>

theorem invalid_json_writes_nothing:
  assumes "git_run env git_status_cmd = Exited 0 status_out status_err"
      and "git_run env git_show_cmd = Exited 0 (Some raw) show_err"
      and "json_loads env raw = None"
  shows "git_info_main env output = \<lparr>returned = Inl JSONDecodeError, written = []\<rparr>
       \<and> exit_status (returned (git_info_main env output)) = 1"
  using assms
  by (simp add: git_info_main_def parse_git_status_def parse_git_show_def run_checked_def
      exit_status_def)

theorem invalid_json_writes_nothing_witness:
  "git_run (example_git_env [] ''fatal: bad object HEAD'' 0) git_status_cmd
     = Exited 0 (Some []) (Some [])
   \<and> git_run (example_git_env [] ''fatal: bad object HEAD'' 0) git_show_cmd
     = Exited 0 (Some ''fatal: bad object HEAD'') (Some [])
   \<and> json_loads (example_git_env [] ''fatal: bad object HEAD'' 0) ''fatal: bad object HEAD'' = None
   \<and> git_info_main (example_git_env [] ''fatal: bad object HEAD'' 0) ''out.json''
     = \<lparr>returned = Inl JSONDecodeError, written = []\<rparr>
   \<and> exit_status (returned (git_info_main (example_git_env [] ''fatal: bad object HEAD'' 0) ''out.json'')) = 1"
proof -
  let ?env = "example_git_env [] ''fatal: bad object HEAD'' 0"
  have st: "git_run ?env git_status_cmd = Exited 0 (Some []) (Some [])"
    by (simp add: example_git_env_def example_git_run_def)
  have sh: "git_run ?env git_show_cmd = Exited 0 (Some ''fatal: bad object HEAD'') (Some [])"
    by (simp add: example_git_env_def example_git_run_def git_show_cmd_def git_status_cmd_def)
  have js: "json_loads ?env ''fatal: bad object HEAD'' = None"
    by (simp add: example_git_env_def example_json_loads_def example_show_text_def)
  show ?thesis
    using st sh js invalid_json_writes_nothing [OF st sh js, of "''out.json''"]
    by (simp add: exit_status_def)
qed

subsection \<open>A clean tree\<close>

lemma example_iso: "fromisoformat ''2024-01-15T10:30:00+00:00'' =
    Inr \<lparr>dt_year = 2024, dt_month = 1, dt_day = 15, dt_hour = 10, dt_minute = 30,
         dt_second = 0, dt_microsecond = 0, dt_utcoffset = Some 0\<rparr>"
  by code_simp

lemma example_wall_seconds:
  "wall_seconds \<lparr>dt_year = 2024, dt_month = 1, dt_day = 15, dt_hour = 10, dt_minute = 30,
         dt_second = 0, dt_microsecond = 0, dt_utcoffset = Some 0\<rparr> = 63840997800"
  by code_simp

lemma example_of_seconds:
  "datetime_of_seconds 63840997800 0 (Some 0) = 
    Inr \<lparr>dt_year = 2024, dt_month = 1, dt_day = 15, dt_hour = 10, dt_minute = 30,
         dt_second = 0, dt_microsecond = 0, dt_utcoffset = Some 0\<rparr>"
  by code_simp

lemma example_cal_ver:
  "strftime \<lparr>dt_year = 2024, dt_month = 1, dt_day = 15, dt_hour = 10, dt_minute = 30,
         dt_second = 0, dt_microsecond = 0, dt_utcoffset = Some 0\<rparr> ''%Y%m%d.%H%M%S.0'' = ''20240115.103000.0''"
  by code_simp

lemma example_strict:
  "strftime \<lparr>dt_year = 2024, dt_month = 1, dt_day = 15, dt_hour = 10, dt_minute = 30,
         dt_second = 0, dt_microsecond = 0, dt_utcoffset = Some 0\<rparr> ''%Y%m%dT%H:%M:%SZ'' = ''20240115T10:30:00Z''"
  by code_simp

lemma example_clean_finalize:
  "finalize env
     [(IS_DIRTY, PBool False),
      (ABBREVIATED_COMMIT_HASH, PStr ''abc1234''),
      (COMMITER_DATE_STRICT, PStr ''2024-01-15T10:30:00+00:00''),
      (COMMIT_HASH, PStr full_hash)] =
   Inr [(IS_DIRTY, PBool False),
      (ABBREVIATED_COMMIT_HASH, PStr ''abc1234''),
      (COMMITER_DATE_STRICT, PStr ''20240115T10:30:00Z''),
      (COMMIT_HASH, PStr full_hash),
      (CAL_VER, PStr ''20240115.103000.0''),
      (COMMITER_DATE_TIMESTAMP, PInt 1705314600),
      (ARTIFACT_VER, PStr ''20240115.103000.0-shaabc1234'')]"
proof -
  have ts: "round_us (timestamp_us env \<lparr>dt_year = 2024, dt_month = 1, dt_day = 15, dt_hour = 10, dt_minute = 30,
         dt_second = 0, dt_microsecond = 0, dt_utcoffset = Some 0\<rparr>) = 1705314600"
  proof -
    have "timestamp_us env \<lparr>dt_year = 2024, dt_month = 1, dt_day = 15, dt_hour = 10,
         dt_minute = 30, dt_second = 0, dt_microsecond = 0, dt_utcoffset = Some 0\<rparr>
        = 1705314600000000"
      by (simp add: timestamp_us_def example_wall_seconds EPOCH_SECONDS_def)
    then show ?thesis
      by (simp add: round_us_def)
  qed
  have az: "astimezone_utc env \<lparr>dt_year = 2024, dt_month = 1, dt_day = 15, dt_hour = 10, dt_minute = 30,
         dt_second = 0, dt_microsecond = 0, dt_utcoffset = Some 0\<rparr> = 
    Inr \<lparr>dt_year = 2024, dt_month = 1, dt_day = 15, dt_hour = 10, dt_minute = 30,
         dt_second = 0, dt_microsecond = 0, dt_utcoffset = Some 0\<rparr>"
    unfolding astimezone_utc_def
    by (simp add: example_wall_seconds example_of_seconds)
  show ?thesis
    unfolding finalize_def
    by (simp add: dict_get_def dict_getitem_def Let_def example_iso az ts example_cal_ver example_strict
         del: strftime.simps)
qed

text \<open>
  C3: when the status query prints nothing and the show query answers with the abbreviated
  hash \<^verbatim>\<open>abc1234\<close>, the committer date \<^verbatim>\<open>2024-01-15T10:30:00+00:00\<close> and some full hash,
  the run writes to standard output the one object whose members are, in this order: the
  abbreviated hash unchanged, \<^verbatim>\<open>artifact_ver\<close> \<^verbatim>\<open>20240115.103000.0-shaabc1234\<close>,
  \<^verbatim>\<open>cal_ver\<close> \<^verbatim>\<open>20240115.103000.0\<close>, the full hash unchanged, the committer date
  rewritten to \<^verbatim>\<open>20240115T10:30:00Z\<close>, the timestamp 1705314600, and \<^verbatim>\<open>is_dirty\<close>
  false. The timestamp is the number of seconds from 1970-01-01T00:00:00 to
  2024-01-15T10:30:00.
\<close>

theorem clean_tree_record:
  assumes "git_run env git_status_cmd = Exited 0 (Some []) status_err"
      and "git_run env git_show_cmd = Exited 0 (Some raw) show_err"
      and "json_loads env raw =
             Some [(''abbreviated_commit_hash'', PStr ''abc1234''),
                   (''committer_date_strict_iso8601'', PStr ''2024-01-15T10:30:00+00:00''),
                   (''commit_hash'', PStr full_hash)]"
  shows "git_info_main env ''-'' =
           \<lparr>returned = Inr 0,
            written =
              [(Stdout,
                [(''abbreviated_commit_hash'', PStr ''abc1234''),
                 (''artifact_ver'', PStr ''20240115.103000.0-shaabc1234''),
                 (''cal_ver'', PStr ''20240115.103000.0''),
                 (''commit_hash'', PStr full_hash),
                 (''committer_date_strict_iso8601'', PStr ''20240115T10:30:00Z''),
                 (''committer_date_timestamp'', PInt 1705314600),
                 (''is_dirty'', PBool False)])]\<rparr>
         \<and> (ymd2ord 2024 1 15 - ymd2ord 1970 1 1) * 86400 + 10 * 3600 + 30 * 60 = 1705314600"
proof -
  have status: "parse_git_status env = Inr [(IS_DIRTY, PBool False)]"
    using assms(1) by (simp add: parse_git_status_def run_checked_def)
  have shown: "parse_git_show env =
      Inr [(ABBREVIATED_COMMIT_HASH, PStr ''abc1234''),
           (COMMITER_DATE_STRICT, PStr ''2024-01-15T10:30:00+00:00''),
           (COMMIT_HASH, PStr full_hash)]"
    using assms(2,3) by (simp add: parse_git_show_def run_checked_def)
  have merged: "dict_update (dict_update [] [(IS_DIRTY, PBool False)])
        [(ABBREVIATED_COMMIT_HASH, PStr ''abc1234''),
         (COMMITER_DATE_STRICT, PStr ''2024-01-15T10:30:00+00:00''),
         (COMMIT_HASH, PStr full_hash)] =
      [(IS_DIRTY, PBool False),
       (ABBREVIATED_COMMIT_HASH, PStr ''abc1234''),
       (COMMITER_DATE_STRICT, PStr ''2024-01-15T10:30:00+00:00''),
       (COMMIT_HASH, PStr full_hash)]"
    by simp
  have run: "git_info_main env ''-'' =
      \<lparr>returned = Inr 0,
       written = [(Stdout, json_dump_sorted
         [(IS_DIRTY, PBool False),
          (ABBREVIATED_COMMIT_HASH, PStr ''abc1234''),
          (COMMITER_DATE_STRICT, PStr ''20240115T10:30:00Z''),
          (COMMIT_HASH, PStr full_hash),
          (CAL_VER, PStr ''20240115.103000.0''),
          (COMMITER_DATE_TIMESTAMP, PInt 1705314600),
          (ARTIFACT_VER, PStr ''20240115.103000.0-shaabc1234'')])]\<rparr>"
    unfolding git_info_main_def status shown
    by (simp only: merged example_clean_finalize sum.case refl if_True)
  have epoch: "(ymd2ord 2024 1 15 - ymd2ord 1970 1 1) * 86400 + 10 * 3600 + 30 * 60 = 1705314600"
    by code_simp
  show ?thesis
    unfolding run using epoch by (simp add: json_dump_sorted_def)
qed

theorem clean_tree_record_witness:
  "git_run (example_git_env [] example_show_text 0) git_status_cmd = Exited 0 (Some []) (Some [])
   \<and> git_run (example_git_env [] example_show_text 0) git_show_cmd
       = Exited 0 (Some example_show_text) (Some [])
   \<and> json_loads (example_git_env [] example_show_text 0) example_show_text =
       Some [(''abbreviated_commit_hash'', PStr ''abc1234''),
             (''committer_date_strict_iso8601'', PStr ''2024-01-15T10:30:00+00:00''),
             (''commit_hash'', PStr ''abc1234def5678901234567890abcdef12345678'')]
   \<and> git_info_main (example_git_env [] example_show_text 0) ''-'' =
       \<lparr>returned = Inr 0,
        written =
          [(Stdout,
            [(''abbreviated_commit_hash'', PStr ''abc1234''),
             (''artifact_ver'', PStr ''20240115.103000.0-shaabc1234''),
             (''cal_ver'', PStr ''20240115.103000.0''),
             (''commit_hash'', PStr ''abc1234def5678901234567890abcdef12345678''),
             (''committer_date_strict_iso8601'', PStr ''20240115T10:30:00Z''),
             (''committer_date_timestamp'', PInt 1705314600),
             (''is_dirty'', PBool False)])]\<rparr>"
proof -
  let ?env = "example_git_env [] example_show_text 0"
  have st: "git_run ?env git_status_cmd = Exited 0 (Some []) (Some [])"
    by (simp add: example_git_env_def example_git_run_def)
  have sh: "git_run ?env git_show_cmd = Exited 0 (Some example_show_text) (Some [])"
    by (simp add: example_git_env_def example_git_run_def git_show_cmd_def git_status_cmd_def)
  have js: "json_loads ?env example_show_text =
       Some [(''abbreviated_commit_hash'', PStr ''abc1234''),
             (''committer_date_strict_iso8601'', PStr ''2024-01-15T10:30:00+00:00''),
             (''commit_hash'', PStr ''abc1234def5678901234567890abcdef12345678'')]"
    by (simp add: example_git_env_def example_json_loads_def example_shown_def)
  show ?thesis
    using st sh js clean_tree_record [OF st sh js]
    by simp
qed

subsection \<open>The emitted object of a successful run\<close>

lemma merged_distinct:
  "distinct (map fst (dict_update (dict_update [] status) shown))"
  by (simp add: distinct_update)

text \<open>
  C8: a run in which \<^verbatim>\<open>main\<close> returns has returned 0 and has written exactly one object:
  to standard output when the output argument is \<^verbatim>\<open>-\<close>, to the named file otherwise.
  The object holds the items of the finalized mapping, its keys are in strictly ascending
  order, and any mapping with the same items, in whatever order they were added, is written
  as the same object.
\<close>

theorem output_is_one_sorted_object:
  assumes "returned (git_info_main env output) = Inr code"
  shows "code = 0
       \<and> (\<exists>status shown data.
             parse_git_status env = Inr status
           \<and> parse_git_show env = Inr shown
           \<and> finalize env (dict_update (dict_update [] status) shown) = Inr data
           \<and> written (git_info_main env output) =
               [(if output = ''-'' then Stdout else File output, json_dump_sorted data)]
           \<and> set (json_dump_sorted data) = set data
           \<and> sorted_wrt (<) (map fst (json_dump_sorted data))
           \<and> (\<forall>data'. distinct (map fst data') \<and> set data' = set data
                 \<longrightarrow> json_dump_sorted data' = json_dump_sorted data))"
proof -
  from assms obtain status where status: "parse_git_status env = Inr status"
    by (cases "parse_git_status env") (simp_all add: git_info_main_def)
  from assms status obtain shown where shown: "parse_git_show env = Inr shown"
    by (cases "parse_git_show env") (simp_all add: git_info_main_def)
  let ?merged = "dict_update (dict_update [] status) shown"
  from assms status shown obtain data where data: "finalize env ?merged = Inr data"
    by (cases "finalize env ?merged") (simp_all add: git_info_main_def)
  have dist: "distinct (map fst data)"
    using finalize_distinct [OF data merged_distinct] .
  from assms status shown data
  have code: "code = 0"
    and wr: "written (git_info_main env output) =
               [(if output = ''-'' then Stdout else File output, json_dump_sorted data)]"
    by (auto simp add: git_info_main_def split: if_splits)
  have items: "set (json_dump_sorted data) = set data"
    by (simp add: json_dump_sorted_def)
  have order_free: "\<forall>data'. distinct (map fst data') \<and> set data' = set data
                 \<longrightarrow> json_dump_sorted data' = json_dump_sorted data"
    using json_dump_sorted_order_free [OF dist] by blast
  from code status shown data wr items json_dump_sorted_keys [OF dist] order_free
  show ?thesis by blast
qed


theorem output_is_one_sorted_object_witness:
  "returned (git_info_main (example_git_env '' M a.txt'' example_show_text 0) ''out.json'') = Inr 0
   \<and> written (git_info_main (example_git_env '' M a.txt'' example_show_text 0) ''out.json'') =
       [(File ''out.json'',
         [(''abbreviated_commit_hash'', PStr ''abc1234''),
          (''artifact_ver'', PStr ''20240301.120000.0-shaabc1234''),
          (''cal_ver'', PStr ''20240301.120000.0''),
          (''commit_hash'', PStr ''abc1234def5678901234567890abcdef12345678''),
          (''committer_date_strict_iso8601'', PStr ''20240301T12:00:00Z''),
          (''committer_date_timestamp'', PInt 1709294400),
          (''is_dirty'', PBool True)])]
   \<and> json_dump_sorted
        [(''artifact_ver'', PStr ''20240301.120000.0-shaabc1234''),
         (''committer_date_timestamp'', PInt 1709294400),
         (''cal_ver'', PStr ''20240301.120000.0''),
         (''commit_hash'', PStr ''abc1234def5678901234567890abcdef12345678''),
         (''committer_date_strict_iso8601'', PStr ''20240301T12:00:00Z''),
         (''abbreviated_commit_hash'', PStr ''abc1234''),
         (''is_dirty'', PBool True)] =
       [(''abbreviated_commit_hash'', PStr ''abc1234''),
        (''artifact_ver'', PStr ''20240301.120000.0-shaabc1234''),
        (''cal_ver'', PStr ''20240301.120000.0''),
        (''commit_hash'', PStr ''abc1234def5678901234567890abcdef12345678''),
        (''committer_date_strict_iso8601'', PStr ''20240301T12:00:00Z''),
        (''committer_date_timestamp'', PInt 1709294400),
        (''is_dirty'', PBool True)]"
proof -
  let ?env = "example_git_env '' M a.txt'' example_show_text 0"
  let ?D = "[(''is_dirty'', PBool True),
             (''abbreviated_commit_hash'', PStr ''abc1234''),
             (''committer_date_strict_iso8601'', PStr ''20240301T12:00:00Z''),
             (''commit_hash'', PStr ''abc1234def5678901234567890abcdef12345678''),
             (''cal_ver'', PStr ''20240301.120000.0''),
             (''committer_date_timestamp'', PInt 1709294400),
             (''artifact_ver'', PStr ''20240301.120000.0-shaabc1234'')]"
  let ?D' = "[(''artifact_ver'', PStr ''20240301.120000.0-shaabc1234''),
              (''committer_date_timestamp'', PInt 1709294400),
              (''cal_ver'', PStr ''20240301.120000.0''),
              (''commit_hash'', PStr ''abc1234def5678901234567890abcdef12345678''),
              (''committer_date_strict_iso8601'', PStr ''20240301T12:00:00Z''),
              (''abbreviated_commit_hash'', PStr ''abc1234''),
              (''is_dirty'', PBool True)]"
  let ?L = "[(''abbreviated_commit_hash'', PStr ''abc1234''),
             (''artifact_ver'', PStr ''20240301.120000.0-shaabc1234''),
             (''cal_ver'', PStr ''20240301.120000.0''),
             (''commit_hash'', PStr ''abc1234def5678901234567890abcdef12345678''),
             (''committer_date_strict_iso8601'', PStr ''20240301T12:00:00Z''),
             (''committer_date_timestamp'', PInt 1709294400),
             (''is_dirty'', PBool True)]"
  have ret: "returned (git_info_main ?env ''out.json'') = Inr 0"
    by code_simp
  have st: "parse_git_status ?env = Inr [(''is_dirty'', PBool True)]"
    by code_simp
  have sh: "parse_git_show ?env = Inr example_shown"
    by code_simp
  have fin: "finalize ?env (dict_update (dict_update [] [(''is_dirty'', PBool True)]) example_shown)
      = Inr ?D"
    by code_simp
  from output_is_one_sorted_object [OF ret] obtain status shown data
    where "parse_git_status ?env = Inr status"
      and "parse_git_show ?env = Inr shown"
      and "finalize ?env (dict_update (dict_update [] status) shown) = Inr data"
      and wr: "written (git_info_main ?env ''out.json'') =
                 [(if ''out.json'' = ''-'' then Stdout else File ''out.json'', json_dump_sorted data)]"
      and free: "\<forall>data'. distinct (map fst data') \<and> set data' = set data
                   \<longrightarrow> json_dump_sorted data' = json_dump_sorted data"
    by blast
  with st sh fin have data: "data = ?D"
    by simp
  have sorted: "json_dump_sorted ?D = ?L"
    by (simp add: json_dump_sorted_def)
  have "distinct (map fst ?D')" and "set ?D' = set ?D"
    by auto
  with free data have "json_dump_sorted ?D' = json_dump_sorted ?D"
    by blast
  with ret wr data sorted show ?thesis
    by simp
qed

subsection \<open>The derived fields\<close>

text \<open>
  C4: for a mapping that does not yet hold the derived fields (the status and show steps
  never produce them), when \<^verbatim>\<open>finalize\<close> returns, each of \<^verbatim>\<open>cal_ver\<close>,
  \<^verbatim>\<open>committer_date_timestamp\<close> and \<^verbatim>\<open>artifact_ver\<close> is present if and only if the
  mapping held a truthy committer date, and an \<^verbatim>\<open>artifact_ver\<close> that is present is
  \<^verbatim>\<open>cal_ver\<close>, then \<^verbatim>\<open>-sha\<close>, then the abbreviated commit hash.
\<close>

theorem derived_fields_iff_committer_date:
  assumes "finalize env data = Inr data'"
      and "map_of data ''cal_ver'' = None"
      and "map_of data ''committer_date_timestamp'' = None"
      and "map_of data ''artifact_ver'' = None"
  shows "(map_of data' ''cal_ver'' \<noteq> None
            \<longleftrightarrow> truthy (dict_get data ''committer_date_strict_iso8601''))
       \<and> (map_of data' ''committer_date_timestamp'' \<noteq> None
            \<longleftrightarrow> truthy (dict_get data ''committer_date_strict_iso8601''))
       \<and> (map_of data' ''artifact_ver'' \<noteq> None
            \<longleftrightarrow> truthy (dict_get data ''committer_date_strict_iso8601''))
       \<and> (\<forall>v. map_of data' ''artifact_ver'' = Some v \<longrightarrow>
             (\<exists>c h. map_of data' ''cal_ver'' = Some (PStr c)
                  \<and> map_of data' ''abbreviated_commit_hash'' = Some (PStr h)
                  \<and> v = PStr (c @ ''-sha'' @ h)))"
proof (cases "truthy (dict_get data ''committer_date_strict_iso8601'')")
  case False
  then have "data' = data"
    using assms(1) by (simp add: finalize_absent)
  with False assms(2-4) show ?thesis by simp
next
  case True
  from finalize_derived [OF assms(1) True] obtain dt_utc h
    where h: "map_of data ''abbreviated_commit_hash'' = Some (PStr h)"
      and d: "data' =
             dict_setitem
               (dict_setitem
                  (dict_setitem
                     (dict_setitem data CAL_VER (PStr (strftime dt_utc ''%Y%m%d.%H%M%S.0'')))
                     COMMITER_DATE_STRICT (PStr (strftime dt_utc ''%Y%m%dT%H:%M:%SZ'')))
                  COMMITER_DATE_TIMESTAMP (PInt (round_us (timestamp_us env dt_utc))))
               ARTIFACT_VER (PStr (strftime dt_utc ''%Y%m%d.%H%M%S.0'' @ ''-sha'' @ h))"
    by blast
  show ?thesis
    unfolding d using True h
    by (simp add: map_of_setitem del: strftime.simps)
qed


theorem derived_fields_iff_committer_date_witness:
  "finalize (example_git_env [] example_show_text 0)
     [(''is_dirty'', PBool False),
      (''abbreviated_commit_hash'', PStr ''abc1234''),
      (''committer_date_strict_iso8601'', PStr ''2024-01-15T10:30:00+00:00''),
      (''commit_hash'', PStr ''abc1234def5678901234567890abcdef12345678'')] =
   Inr [(''is_dirty'', PBool False),
        (''abbreviated_commit_hash'', PStr ''abc1234''),
        (''committer_date_strict_iso8601'', PStr ''20240115T10:30:00Z''),
        (''commit_hash'', PStr ''abc1234def5678901234567890abcdef12345678''),
        (''cal_ver'', PStr ''20240115.103000.0''),
        (''committer_date_timestamp'', PInt 1705314600),
        (''artifact_ver'', PStr ''20240115.103000.0-shaabc1234'')]
   \<and> truthy (dict_get
        [(''is_dirty'', PBool False),
         (''abbreviated_commit_hash'', PStr ''abc1234''),
         (''committer_date_strict_iso8601'', PStr ''2024-01-15T10:30:00+00:00''),
         (''commit_hash'', PStr ''abc1234def5678901234567890abcdef12345678'')]
        ''committer_date_strict_iso8601'')
   \<and> finalize (example_git_env [] example_show_text 0) [(''is_dirty'', PBool False)]
       = Inr [(''is_dirty'', PBool False)]
   \<and> \<not> truthy (dict_get [(''is_dirty'', PBool False)] ''committer_date_strict_iso8601'')
   \<and> map_of [(''is_dirty'', PBool False)] ''artifact_ver'' = None"
proof -
  let ?env = "example_git_env [] example_show_text 0"
  let ?A = "[(''is_dirty'', PBool False),
             (''abbreviated_commit_hash'', PStr ''abc1234''),
             (''committer_date_strict_iso8601'', PStr ''2024-01-15T10:30:00+00:00''),
             (''commit_hash'', PStr ''abc1234def5678901234567890abcdef12345678'')]"
  let ?A' = "[(''is_dirty'', PBool False),
              (''abbreviated_commit_hash'', PStr ''abc1234''),
              (''committer_date_strict_iso8601'', PStr ''20240115T10:30:00Z''),
              (''commit_hash'', PStr ''abc1234def5678901234567890abcdef12345678''),
              (''cal_ver'', PStr ''20240115.103000.0''),
              (''committer_date_timestamp'', PInt 1705314600),
              (''artifact_ver'', PStr ''20240115.103000.0-shaabc1234'')]"
  let ?B = "[(''is_dirty'', PBool False)]"
  have finA: "finalize ?env ?A = Inr ?A'"
    by (rule example_clean_finalize)
  have finB: "finalize ?env ?B = Inr ?B"
    by (simp add: finalize_absent dict_get_def)
  have a1: "map_of ?A ''cal_ver'' = None"
    and a2: "map_of ?A ''committer_date_timestamp'' = None"
    and a3: "map_of ?A ''artifact_ver'' = None"
    by simp_all
  have b1: "map_of ?B ''cal_ver'' = None"
    and b2: "map_of ?B ''committer_date_timestamp'' = None"
    and b3: "map_of ?B ''artifact_ver'' = None"
    by simp_all
  note A = derived_fields_iff_committer_date [OF finA a1 a2 a3]
  note B = derived_fields_iff_committer_date [OF finB b1 b2 b3]
  from A have "truthy (dict_get ?A ''committer_date_strict_iso8601'')"
    by simp
  moreover from B have "\<not> truthy (dict_get ?B ''committer_date_strict_iso8601'')"
    by simp
  ultimately show ?thesis
    using finA finB b3 by simp
qed

subsection \<open>A dirty tree\<close>

lemma finalize_dirty_fields:
  assumes "finalize env data = Inr data'"
      and "truthy (dict_get data ''committer_date_strict_iso8601'')"
      and "equals_True (dict_get data ''is_dirty'')"
  shows "\<exists>now. utcnow env = Inr now \<and> dt_utcoffset now = None
           \<and> map_of data' ''cal_ver'' = Some (PStr (strftime now ''%Y%m%d.%H%M%S.0''))
           \<and> map_of data' ''committer_date_strict_iso8601''
               = Some (PStr (strftime now ''%Y%m%dT%H:%M:%SZ''))
           \<and> map_of data' ''committer_date_timestamp''
               = Some (PInt (round_us
                   (local_to_epoch env (wall_seconds now - EPOCH_SECONDS) * 1000000
                      + dt_microsecond now)))"
proof -
  from finalize_derived [OF assms(1,2)] assms(3) obtain now h
    where now: "utcnow env = Inr now"
      and d: "data' =
             dict_setitem
               (dict_setitem
                  (dict_setitem
                     (dict_setitem data CAL_VER (PStr (strftime now ''%Y%m%d.%H%M%S.0'')))
                     COMMITER_DATE_STRICT (PStr (strftime now ''%Y%m%dT%H:%M:%SZ'')))
                  COMMITER_DATE_TIMESTAMP (PInt (round_us (timestamp_us env now))))
               ARTIFACT_VER (PStr (strftime now ''%Y%m%d.%H%M%S.0'' @ ''-sha'' @ h))"
    by auto
  from now have naive: "dt_utcoffset now = None"
    by (auto simp add: utcnow_def datetime_of_seconds_def Let_def split: if_splits prod.splits)
  then have "timestamp_us env now =
      local_to_epoch env (wall_seconds now - EPOCH_SECONDS) * 1000000 + dt_microsecond now"
    by (simp add: timestamp_us_def)
  with now naive show ?thesis
    unfolding d by (simp add: map_of_setitem del: strftime.simps)
qed

text \<open>
  C5, at a machine whose local time is one hour ahead of UTC, with the clock at
  2024-03-01T12:00:00.5 UTC, which is 1709294400.5 seconds after the epoch: the date fields
  are formatted from the clock, and \<^verbatim>\<open>committer_date_timestamp\<close> is 1709290800, one hour
  less than 1709294400, the epoch seconds of the clock rounded to the nearest integer.
  \<^verbatim>\<open>datetime.utcnow()\<close> returns a naive object, and \<^verbatim>\<open>timestamp()\<close> reads a naive
  object as local time.
\<close>

theorem dirty_timestamp_read_as_local_time:
  "finalize (example_git_env '' M a.txt'' example_show_text 3600)
     [(''is_dirty'', PBool True),
      (''abbreviated_commit_hash'', PStr ''abc1234''),
      (''committer_date_strict_iso8601'', PStr ''2024-01-15T10:30:00+00:00''),
      (''commit_hash'', PStr ''abc1234def5678901234567890abcdef12345678'')] =
   Inr [(''is_dirty'', PBool True),
        (''abbreviated_commit_hash'', PStr ''abc1234''),
        (''committer_date_strict_iso8601'', PStr ''20240301T12:00:00Z''),
        (''commit_hash'', PStr ''abc1234def5678901234567890abcdef12345678''),
        (''cal_ver'', PStr ''20240301.120000.0''),
        (''committer_date_timestamp'', PInt 1709290800),
        (''artifact_ver'', PStr ''20240301.120000.0-shaabc1234'')]
   \<and> round_us (clock_us (example_git_env '' M a.txt'' example_show_text 3600)) = 1709294400"
  by code_simp

end
